theory Spec2Isabelle
  imports Complex_Main "HOL-Library.Sublist"
begin

section \<open>Tables, series and errors\<close>

text \<open>
  The repository works on pandas data frames. A frame is modelled row by row: every row
  carries its identifier (its index label) and its cells by column name, in column order;
  the frame also records the ordered column names, which an empty frame still has.
  A cell is an integer, a float, a string, or missing (\<open>NaN\<close>). A float is the real
  number it stands for. The rounding of float arithmetic is not modelled (no theorem below
  depends on the value of a mean); the conversion of an integer to a float is, because
  the join of the row filter depends on it. A column has the type \<open>int64\<close> when it holds
  integers only, \<open>float64\<close> when it holds floats and missing values only, and is an
  object column otherwise. Index labels need not be unique in pandas, so nothing here
  makes them so.
\<close>

datatype cell = NaN | IntV int | FloatV real | StrV string

type_synonym 'i row = "'i \<times> (string \<times> cell) list"

record 'i table =
  columns :: "string list"
  rows :: "'i row list"

datatype dtype = int64 | float64 | object_dtype

record 'i series =
  s_dtype :: dtype
  s_name :: "string option"
  entries :: "('i \<times> cell) list"

text \<open>
  Every exception the modelled code can raise is a value. The two \<open>ValueError\<close>s of
  \<open>feature_store.py\<close> are told apart by their message: the one of
  \<open>_validate_columns\<close> carries the class name and the set of missing columns, the
  overwrite guard carries the class name and the output columns. \<open>NotModelled\<close> marks
  an input that the model does not cover; no theorem relies on it.
\<close>

datatype error =
    ValueError_missing_columns string "string set"
  | ValueError_would_overwrite string "string list"
  | ValueError_must_contain "string list"
  | ValueError string
  | NotFittedError
  | RuntimeError string
  | ImportError string
  | KeyError string
  | TypeError string
  | AttributeError string
  | ZeroDivisionError
  | NotModelled string

definition index :: "'i table \<Rightarrow> 'i list" where
  "index X = map fst (rows X)"

definition s_index :: "'i series \<Rightarrow> 'i list" where
  "s_index y = map fst (entries y)"

definition cell_of :: "'i row \<Rightarrow> string \<Rightarrow> cell" where
  "cell_of r c = (case map_of (snd r) c of None \<Rightarrow> NaN | Some v \<Rightarrow> v)"


definition column :: "'i table \<Rightarrow> string \<Rightarrow> cell list" where
  "column X c = map (\<lambda>r. cell_of r c) (rows X)"

text \<open>
  Group keys. A key is the value of a cell that is not missing: a number or a string. A
  missing key belongs to no group (\<open>groupby\<close> drops it, and the index it is merged
  against never holds it). \<open>groupby\<close> compares the keys of one column as they are; a join
  of two columns of different types converts them first (\<open>joins\<close> below).
\<close>

datatype key = NumKey real | StrKey string

fun key_of :: "cell \<Rightarrow> key option" where
  "key_of NaN = None"
| "key_of (IntV n) = Some (NumKey (of_int n))"
| "key_of (FloatV x) = Some (NumKey x)"
| "key_of (StrV s) = Some (StrKey s)"

fun is_str :: "cell \<Rightarrow> bool" where
  "is_str (StrV s) = True"
| "is_str c = False"

fun num_of :: "cell \<Rightarrow> real option" where
  "num_of (IntV n) = Some (of_int n)"
| "num_of (FloatV x) = Some x"
| "num_of c = None"

fun is_int :: "cell \<Rightarrow> bool" where
  "is_int (IntV n) = True"
| "is_int c = False"

fun is_float_or_nan :: "cell \<Rightarrow> bool" where
  "is_float_or_nan (FloatV x) = True"
| "is_float_or_nan NaN = True"
| "is_float_or_nan c = False"

fun is_str_or_nan :: "cell \<Rightarrow> bool" where
  "is_str_or_nan (StrV s) = True"
| "is_str_or_nan NaN = True"
| "is_str_or_nan c = False"

text \<open>
  The type of a key column: \<open>int64\<close>, \<open>float64\<close>, or an object column of strings
  (with missing values). A missing value is the float \<open>NaN\<close>, or \<open>None\<close> among strings. A
  column that mixes numbers and strings, or integers and missing values, is an object
  column of another sort, which the model of the join leaves out. An integer cell holds
  an \<open>int64\<close> value.
\<close>

definition key_dtype :: "cell list \<Rightarrow> dtype option" where
  "key_dtype cs =
     (if cs \<noteq> [] \<and> list_all is_int cs then Some int64
      else if list_all is_float_or_nan cs then Some float64
      else if list_all is_str_or_nan cs then Some object_dtype
      else None)"

text \<open>
  \<open>astype('float64')\<close> on an integer: the nearest float with 53 bits of mantissa, ties to
  the even mantissa; the result is given as the integer that float is. Integers up to
  \<open>2 ^ 53\<close> in absolute value are kept.
\<close>

fun bit_length :: "nat \<Rightarrow> nat" where
  "bit_length n = (if n = 0 then 0 else Suc (bit_length (n div 2)))"

declare bit_length.simps [simp del]

definition float64_of_int :: "int \<Rightarrow> int" where
  "float64_of_int n =
     (let a = nat \<bar>n\<bar>; e = bit_length a - 53; q = a div 2 ^ e; r = a mod 2 ^ e;
          m = (if 2 ^ e < 2 * r \<or> (2 * r = 2 ^ e \<and> odd q) then q + 1 else q)
      in sgn n * int (m * 2 ^ e))"

text \<open>Arithmetic in an \<open>int64\<close> column wraps around at 64 bits.\<close>

definition wrap_int64 :: "int \<Rightarrow> int" where
  "wrap_int64 n = (n + 2 ^ 63) mod 2 ^ 64 - 2 ^ 63"

fun to_float64 :: "key \<Rightarrow> key" where
  "to_float64 (NumKey x) = NumKey (of_int (float64_of_int \<lfloor>x\<rfloor>))"
| "to_float64 (StrKey s) = StrKey s"

text \<open>
  How a join compares a key of the left column with a key of the right index. Keys of
  one type are compared as they are. Where one side is \<open>int64\<close> and the other
  \<open>float64\<close>, pandas converts the integers to floats first, so two integers beyond
  \<open>2 ^ 53\<close> can meet the same float.
\<close>

definition joins :: "dtype \<Rightarrow> dtype \<Rightarrow> key \<Rightarrow> key \<Rightarrow> bool" where
  "joins L R k k' \<longleftrightarrow>
     (if L = int64 \<and> R = float64 then to_float64 k = k'
      else if L = float64 \<and> R = int64 then k = to_float64 k'
      else k = k')"

text \<open>
  The entries of the right side that a left key joins to; a missing key joins to none.
\<close>

definition matches :: "dtype \<Rightarrow> dtype \<Rightarrow> (key \<times> 'v) list \<Rightarrow> key option \<Rightarrow> (key \<times> 'v) list" where
  "matches L R right k = (case k of None \<Rightarrow> [] | Some k' \<Rightarrow> filter (\<lambda>p. joins L R k' (fst p)) right)"

text \<open>
  The check that \<open>merge\<close> makes on the two key types: a numeric column against strings
  (or strings against a numeric index) raises \<open>ValueError\<close>. The result is the type of
  the left keys. When exactly one side has no entries nothing is checked, and nothing
  joins. When both have none, pandas compares the types the two frames were built with,
  which a frame without rows does not show here.
\<close>

definition key_compat :: "cell list \<Rightarrow> dtype \<Rightarrow> bool \<Rightarrow> error + dtype" where
  "key_compat left_keys R right_empty =
     (if (left_keys = []) \<noteq> right_empty then Inr R
      else if left_keys = [] then Inl (NotModelled ''join of two frames without rows'')
      else (case key_dtype left_keys of
              None \<Rightarrow> Inl (NotModelled ''group keys of mixed types'')
            | Some L \<Rightarrow>
                (if (L = object_dtype) \<noteq> (R = object_dtype)
                 then Inl (ValueError ''You are trying to merge on columns of different types'')
                 else Inr L)))"

text \<open>\<open>Series.mean()\<close>: missing values are skipped, no value left gives NaN, a string raises.\<close>

definition series_mean :: "cell list \<Rightarrow> error + cell" where
  "series_mean cs =
     (if list_ex is_str cs then Inl (TypeError ''Could not convert string to numeric'')
      else (let xs = List.map_filter num_of cs
            in if xs = [] then Inr NaN else Inr (FloatV (sum_list xs / of_nat (length xs)))))"

fun sequence :: "('e + 'a) list \<Rightarrow> 'e + 'a list" where
  "sequence [] = Inr []"
| "sequence (x # xs) =
     (case x of Inl e \<Rightarrow> Inl e
      | Inr v \<Rightarrow> (case sequence xs of Inl e \<Rightarrow> Inl e | Inr vs \<Rightarrow> Inr (v # vs)))"

text \<open>The group key of a row, and the keys that occur in a frame (what \<open>groupby\<close> sees).\<close>

definition group_key :: "string \<Rightarrow> 'i row \<Rightarrow> key option" where
  "group_key g r = key_of (cell_of r g)"


text \<open>
  \<open>X.groupby(g)[t].mean()\<close>: one entry per distinct non-missing key of column \<open>g\<close>.
  pandas sorts the groups by key; the result is only ever looked up by key, so the order
  of the entries is left as \<open>remdups\<close> gives it.
\<close>

definition groupby_mean :: "'i table \<Rightarrow> string \<Rightarrow> string \<Rightarrow> error + (key \<times> cell) list" where
  "groupby_mean X g t =
     (let pairs = List.map_filter
            (\<lambda>r. case group_key g r of None \<Rightarrow> None | Some k \<Rightarrow> Some (k, cell_of r t)) (rows X);
          ks = remdups (map fst pairs)
      in case sequence (map (\<lambda>k. series_mean (map snd (filter (\<lambda>p. fst p = k) pairs))) ks) of
           Inl e \<Rightarrow> Inl e
         | Inr ms \<Rightarrow> Inr (zip ks ms))"

section \<open>The group-statistic row filter: \<open>OutlierRemover\<close>\<close>

text \<open>The configuration of the filter; the thresholds are finite floats, reals here.\<close>

record OutlierRemoverConfig =
  group_by_column :: string
  temperature_column :: string
  max_temp_threshold :: real
  min_temp_threshold :: real

text \<open>
  \<open>group_means\<close> is the attribute \<open>_group_means\<close>: \<open>None\<close> until \<open>fit\<close> has set it, then
  a series of means with the group keys as its index, which has the type of the key
  column it was made from.
\<close>

record OutlierRemover =
  config :: OutlierRemoverConfig
  group_means :: "(dtype \<times> (key \<times> cell) list) option"

definition OutlierRemover_init :: "OutlierRemoverConfig \<Rightarrow> OutlierRemover" where
  "OutlierRemover_init cfg = \<lparr>config = cfg, group_means = None\<rparr>"

definition OutlierRemover_fit :: "OutlierRemover \<Rightarrow> 'i table \<Rightarrow> error + OutlierRemover" where
  "OutlierRemover_fit self X =
     (let required_cols = [group_by_column (config self), temperature_column (config self)]
      in if \<not> list_all (\<lambda>col. col \<in> set (columns X)) required_cols
         then Inl (ValueError_must_contain required_cols)
         else (case key_dtype (column X (group_by_column (config self))) of
                 None \<Rightarrow> Inl (NotModelled ''group keys of mixed types'')
               | Some dt \<Rightarrow>
                   (case groupby_mean X (group_by_column (config self)) (temperature_column (config self)) of
                      Inl e \<Rightarrow> Inl e
                    | Inr gm \<Rightarrow> Inr (self\<lparr>group_means := Some (dt, gm)\<rparr>))))"

text \<open>
  \<open>X.merge(means.rename(name), left_on=g, right_index=True, how='left')\<close>. A left
  join: every left row, in order and with its index label, once for each entry of the
  right side that its key joins to, and once with NaN when there is none; the joined value
  is a new last column. \<open>left_on\<close> may also name a level of a named index; here the index
  has no name.
\<close>

definition joined_rows ::
  "dtype \<Rightarrow> dtype \<times> (key \<times> cell) list \<Rightarrow> string \<Rightarrow> string \<Rightarrow> 'i row \<Rightarrow> 'i row list" where
  "joined_rows L means g nm r =
     (if matches L (fst means) (snd means) (group_key g r) = []
      then [(fst r, snd r @ [(nm, NaN)])]
      else map (\<lambda>p. (fst r, snd r @ [(nm, snd p)]))
             (matches L (fst means) (snd means) (group_key g r)))"

definition merge_left ::
  "'i table \<Rightarrow> dtype \<times> (key \<times> cell) list \<Rightarrow> string \<Rightarrow> string \<Rightarrow> error + 'i table" where
  "merge_left X means g nm =
     (case key_compat (column X g) (fst means) (snd means = []) of
        Inl e \<Rightarrow> Inl e
      | Inr L \<Rightarrow>
          Inr \<lparr>columns = columns X @ [nm],
               rows = concat (map (joined_rows L means g nm) (rows X))\<rparr>)"


text \<open>
  Comparison of a column with a float; the joined column holds means, which are floats
  or NaN, and NaN compares false.
\<close>

fun cell_ge :: "cell \<Rightarrow> real \<Rightarrow> bool" where
  "cell_ge (IntV n) t = (t \<le> of_int n)"
| "cell_ge (FloatV x) t = (t \<le> x)"
| "cell_ge c t = False"

fun cell_le :: "cell \<Rightarrow> real \<Rightarrow> bool" where
  "cell_le (IntV n) t = (of_int n \<le> t)"
| "cell_le (FloatV x) t = (x \<le> t)"
| "cell_le c t = False"

definition drop_column :: "string \<Rightarrow> 'i table \<Rightarrow> 'i table" where
  "drop_column nm X =
     \<lparr>columns = filter (\<lambda>c. c \<noteq> nm) (columns X),
      rows = map (\<lambda>r. (fst r, filter (\<lambda>p. fst p \<noteq> nm) (snd r))) (rows X)\<rparr>"

text \<open>
  \<open>y.loc[labels]\<close> with a list of labels: a label that \<open>y\<close> does not have raises
  \<open>KeyError\<close>; otherwise the result lists, for each requested label in turn, every entry
  of \<open>y\<close> under that label (one entry when the labels of \<open>y\<close> are unique).
\<close>

definition loc :: "'i series \<Rightarrow> 'i list \<Rightarrow> error + 'i series" where
  "loc y labels =
     (if \<not> set labels \<subseteq> set (s_index y) then Inl (KeyError ''labels not in index'')
      else Inr (y\<lparr>entries := concat (map (\<lambda>l. filter (\<lambda>e. fst e = l) (entries y)) labels)\<rparr>))"

definition mean_col_name :: "OutlierRemover \<Rightarrow> string" where
  "mean_col_name self = ''_temp_mean_'' @ group_by_column (config self)"

text \<open>The filter mask, row by row: the joined mean lies within the two thresholds.\<close>

definition mask_of :: "OutlierRemover \<Rightarrow> 'i row \<Rightarrow> bool" where
  "mask_of self r \<longleftrightarrow>
     cell_ge (cell_of r (mean_col_name self)) (min_temp_threshold (config self))
     \<and> cell_le (cell_of r (mean_col_name self)) (max_temp_threshold (config self))"

text \<open>
  \<open>OutlierRemover.transform\<close>. A frame without the group column cannot be merged
  (\<open>KeyError\<close>). A frame that already has a column of the temporary name gets both columns
  renamed by the merge, so reading the temporary column raises \<open>KeyError\<close>. The log line
  divides the number of removed rows by the number of input rows, which raises
  \<open>ZeroDivisionError\<close> on a frame without rows.
\<close>

definition OutlierRemover_transform ::
  "OutlierRemover \<Rightarrow> 'i table \<Rightarrow> 'i series option \<Rightarrow> error + ('i table \<times> 'i series option)" where
  "OutlierRemover_transform self X y =
     (case group_means self of
        None \<Rightarrow> Inl NotFittedError
      | Some means \<Rightarrow>
          (let initial_rows = length (rows X);
               g = group_by_column (config self);
               nm = mean_col_name self
           in if g \<notin> set (columns X) then Inl (KeyError g)
              else (case merge_left X means g nm of
                      Inl e \<Rightarrow> Inl e
                    | Inr X_transformed \<Rightarrow>
                        (if nm \<in> set (columns X) then Inl (KeyError nm)
                         else (let mask = mask_of self;
                                   X_filtered = drop_column nm
                                     (X_transformed\<lparr>rows := filter mask (rows X_transformed)\<rparr>)
                               in if initial_rows = 0 then Inl ZeroDivisionError
                                  else (case y of
                                          None \<Rightarrow> Inr (X_filtered, None)
                                        | Some ys \<Rightarrow>
                                            (case loc ys (index X_filtered) of
                                               Inl e \<Rightarrow> Inl e
                                             | Inr y_filtered \<Rightarrow> Inr (X_filtered, Some y_filtered))))))))"

definition OutlierRemover_fit_transform ::
  "OutlierRemover \<Rightarrow> 'i table \<Rightarrow> 'i series option \<Rightarrow> error + (OutlierRemover \<times> 'i table \<times> 'i series option)" where
  "OutlierRemover_fit_transform self X y =
     (case OutlierRemover_fit self X of
        Inl e \<Rightarrow> Inl e
      | Inr self' \<Rightarrow>
          (case OutlierRemover_transform self' X y of
             Inl e \<Rightarrow> Inl e
           | Inr (X', y') \<Rightarrow> Inr (self', X', y')))"




section \<open>Transform steps: \<open>feature_store.py\<close>\<close>

text \<open>
  \<open>_validate_columns\<close>: the error names the class and the set of missing columns.
\<close>

definition validate_columns :: "string \<Rightarrow> 'i table \<Rightarrow> string list \<Rightarrow> error + unit" where
  "validate_columns cls df required_cols =
     (let missing = set required_cols - set (columns df)
      in if missing \<noteq> {} then Inl (ValueError_missing_columns cls missing) else Inr ())"

text \<open>
  \<open>X_out[c] = values\<close>: an existing column is replaced in place, a new one is added last.
\<close>

fun assign_cell :: "string \<Rightarrow> cell \<Rightarrow> (string \<times> cell) list \<Rightarrow> (string \<times> cell) list" where
  "assign_cell c v [] = [(c, v)]"
| "assign_cell c v (p # ps) = (if fst p = c then (c, v) # ps else p # assign_cell c v ps)"

definition assign_column :: "string \<Rightarrow> cell list \<Rightarrow> 'i table \<Rightarrow> 'i table" where
  "assign_column c vs X =
     \<lparr>columns = (if c \<in> set (columns X) then columns X else columns X @ [c]),
      rows = map (\<lambda>(r, v). (fst r, assign_cell c v (snd r))) (zip (rows X) vs)\<rparr>"

text \<open>
  The six concrete classes of the module, which are the steps the repository declares;
  each with its constructor arguments and, last, its learned state.
  \<open>IntToFloatConverter columns columns_to_convert_\<close>;
  \<open>MeanImputer input_cols imputation_values_\<close>;
  \<open>GroupedAggregator input_cols groupby_col aggregations output_cols agg_df_\<close>, where the
  aggregation frame is its column names, the type of its index of group keys and one line
  of values per group key;
  \<open>ColumnSubtractor input_cols output_col col_a col_b\<close>, \<open>AbsoluteDifference\<close> alike;
  \<open>ThresholdBinarizer input_col output_col threshold\<close>.
\<close>

datatype transformer =
    IntToFloatConverter "string list option" "string list"
  | MeanImputer "string list" "(string \<times> cell) list"
  | GroupedAggregator "string list" string "(string \<times> string list) list" "string list"
      "(string list \<times> dtype \<times> (key \<times> cell list) list) option"
  | ColumnSubtractor "string list" string string string
  | AbsoluteDifference "string list" string string string
  | ThresholdBinarizer string string real

fun class_name :: "transformer \<Rightarrow> string" where
  "class_name (IntToFloatConverter cs conv) = ''IntToFloatConverter''"
| "class_name (MeanImputer ic iv) = ''MeanImputer''"
| "class_name (GroupedAggregator ic g aggs oc df) = ''GroupedAggregator''"
| "class_name (ColumnSubtractor ic oc a b) = ''ColumnSubtractor''"
| "class_name (AbsoluteDifference ic oc a b) = ''AbsoluteDifference''"
| "class_name (ThresholdBinarizer i oc t) = ''ThresholdBinarizer''"

subsection \<open>\<open>IntToFloatConverter\<close>\<close>

text \<open>
  \<open>select_dtypes(include=['int', 'int32', 'int64'])\<close>: a column is an integer column when
  it holds integers only. A frame without rows keeps in pandas the column types it was
  built with, which its cells do not show: the model leaves that frame out.
\<close>

definition int_columns :: "'i table \<Rightarrow> error + string list" where
  "int_columns X =
     (if rows X = [] then Inl (NotModelled ''column types of a frame without rows'')
      else Inr (filter (\<lambda>c. list_all (\<lambda>r. is_int (cell_of r c)) (rows X)) (columns X)))"

text \<open>\<open>astype('float64')\<close>; a string cell stands for a string that is not a numeral.\<close>

fun astype_float64 :: "cell \<Rightarrow> error + cell" where
  "astype_float64 (IntV n) = Inr (FloatV (of_int (float64_of_int n)))"
| "astype_float64 (FloatV x) = Inr (FloatV x)"
| "astype_float64 NaN = Inr NaN"
| "astype_float64 (StrV s) = Inl (ValueError ''could not convert string to float'')"

fun convert_columns :: "string list \<Rightarrow> 'i table \<Rightarrow> error + 'i table" where
  "convert_columns [] X_out = Inr X_out"
| "convert_columns (col # cols) X_out =
     (if col \<in> set (columns X_out)
      then (case sequence (map astype_float64 (column X_out col)) of
              Inl e \<Rightarrow> Inl e
            | Inr vs \<Rightarrow> convert_columns cols (assign_column col vs X_out))
      else convert_columns cols X_out)"

subsection \<open>\<open>MeanImputer\<close>\<close>

fun learn_means :: "string list \<Rightarrow> 'i table \<Rightarrow> (string \<times> cell) list \<Rightarrow> error + (string \<times> cell) list" where
  "learn_means [] X acc = Inr acc"
| "learn_means (col # cols) X acc =
     (case series_mean (column X col) of
        Inl e \<Rightarrow> Inl e
      | Inr m \<Rightarrow> learn_means cols X (assign_cell col m acc))"

text \<open>
  \<open>fillna(dict)\<close>: a missing cell of a column that the dictionary names gets the
  dictionary's value; a name of the dictionary that is no column of the frame is ignored.
\<close>

definition fillna :: "(string \<times> cell) list \<Rightarrow> 'i table \<Rightarrow> 'i table" where
  "fillna vals X =
     X\<lparr>rows := map (\<lambda>r. (fst r,
            map (\<lambda>p. (fst p, (if snd p = NaN
                               then (case map_of vals (fst p) of None \<Rightarrow> NaN | Some m \<Rightarrow> m)
                               else snd p))) (snd r))) (rows X)\<rparr>"

subsection \<open>\<open>GroupedAggregator\<close>\<close>

text \<open>
  The aggregation functions by name. Those below are modelled on numbers; every other
  name, and every aggregation but the mean over strings, is outside the model.
\<close>

definition aggregate :: "string \<Rightarrow> cell list \<Rightarrow> error + cell" where
  "aggregate f cs =
     (if f = ''mean'' then series_mean cs
      else if f = ''count'' then Inr (IntV (int (length (filter (\<lambda>c. c \<noteq> NaN) cs))))
      else if list_ex is_str cs then Inl (NotModelled ''aggregation over strings'')
      else (let xs = List.map_filter num_of cs; ints = list_all is_int (filter (\<lambda>c. c \<noteq> NaN) cs)
            in if f = ''sum'' then Inr (if ints then IntV (wrap_int64 (floor (sum_list xs))) else FloatV (sum_list xs))
               else if f = ''min'' then
                 (if xs = [] then Inr NaN
                  else Inr (if ints then IntV (floor (Min (set xs))) else FloatV (Min (set xs))))
               else if f = ''max'' then
                 (if xs = [] then Inr NaN
                  else Inr (if ints then IntV (floor (Max (set xs))) else FloatV (Max (set xs))))
               else Inl (NotModelled ''aggregation function'')))"

definition agg_pairs :: "(string \<times> string list) list \<Rightarrow> (string \<times> string) list" where
  "agg_pairs aggregations = concat (map (\<lambda>p. map (\<lambda>f. (fst p, f)) (snd p)) aggregations)"

definition groupby_agg ::
  "'i table \<Rightarrow> string \<Rightarrow> (string \<times> string list) list \<Rightarrow> error + (key \<times> cell list) list" where
  "groupby_agg X g aggregations =
     (let ks = remdups (List.map_filter (group_key g) (rows X))
      in case sequence (map (\<lambda>k. sequence (map (\<lambda>p. aggregate (snd p)
                   (map (\<lambda>r. cell_of r (fst p)) (filter (\<lambda>r. group_key g r = Some k) (rows X))))
                 (agg_pairs aggregations))) ks) of
           Inl e \<Rightarrow> Inl e
         | Inr ls \<Rightarrow> Inr (zip ks ls))"

text \<open>
  \<open>X.merge(agg_df_, left_on=groupby_col, right_index=True, how='left')\<close>: the same
  left join, with the aggregates of the row's group as new last columns and NaN in each
  of them for a row that joins to no group; where there is such a row, the integer
  aggregates of the other rows become floats, as a column with a missing value is a float
  column.
\<close>

fun upcast :: "cell \<Rightarrow> cell" where
  "upcast (IntV n) = FloatV (of_int (float64_of_int n))"
| "upcast c = c"

definition merge_agg ::
  "'i table \<Rightarrow> string \<Rightarrow> string list \<times> dtype \<times> (key \<times> cell list) list \<Rightarrow> error + 'i table" where
  "merge_agg X g df =
     (case df of
        (names, R, right) \<Rightarrow>
          (case key_compat (column X g) R (right = []) of
             Inl e \<Rightarrow> Inl e
           | Inr L \<Rightarrow>
               (let unmatched = list_ex (\<lambda>r. matches L R right (group_key g r) = []) (rows X);
                    lift = (\<lambda>c. if unmatched then upcast c else c)
                in Inr \<lparr>columns = columns X @ names,
                        rows = concat (map (\<lambda>r. if matches L R right (group_key g r) = []
                                          then [(fst r, snd r @ zip names (replicate (length names) NaN))]
                                          else map (\<lambda>p. (fst r, snd r @ zip names (map lift (snd p))))
                                                 (matches L R right (group_key g r)))
                                       (rows X))\<rparr>)))"

subsection \<open>The stateless steps\<close>

text \<open>
  Arithmetic on cells: a missing operand gives a missing result, a string raises, a
  result in integers wraps around at 64 bits, and an integer that meets a float is
  converted to a float first.
\<close>

fun cell_sub :: "cell \<Rightarrow> cell \<Rightarrow> error + cell" where
  "cell_sub (StrV s) c = Inl (TypeError ''unsupported operand type(s) for -'')"
| "cell_sub c (StrV s) = Inl (TypeError ''unsupported operand type(s) for -'')"
| "cell_sub NaN c = Inr NaN"
| "cell_sub c NaN = Inr NaN"
| "cell_sub (IntV a) (IntV b) = Inr (IntV (wrap_int64 (a - b)))"
| "cell_sub (IntV a) (FloatV b) = Inr (FloatV (of_int (float64_of_int a) - b))"
| "cell_sub (FloatV a) (IntV b) = Inr (FloatV (a - of_int (float64_of_int b)))"
| "cell_sub (FloatV a) (FloatV b) = Inr (FloatV (a - b))"

fun cell_abs :: "cell \<Rightarrow> cell" where
  "cell_abs (IntV a) = IntV (wrap_int64 \<bar>a\<bar>)"
| "cell_abs (FloatV a) = FloatV \<bar>a\<bar>"
| "cell_abs c = c"

fun cell_gt_flag :: "real \<Rightarrow> cell \<Rightarrow> error + cell" where
  "cell_gt_flag t (IntV a) = Inr (IntV (if t < of_int (float64_of_int a) then 1 else 0))"
| "cell_gt_flag t (FloatV a) = Inr (IntV (if t < a then 1 else 0))"
| "cell_gt_flag t NaN = Inr (IntV 0)"
| "cell_gt_flag t (StrV s) = Inl (TypeError ''> not supported between str and float'')"

definition difference_column :: "'i table \<Rightarrow> string \<Rightarrow> string \<Rightarrow> error + cell list" where
  "difference_column X a b =
     (if a \<notin> set (columns X) then Inl (KeyError a)
      else if b \<notin> set (columns X) then Inl (KeyError b)
      else sequence (map (\<lambda>r. cell_sub (cell_of r a) (cell_of r b)) (rows X)))"

subsection \<open>\<open>fit\<close> and \<open>transform\<close> of each class\<close>

fun transformer_fit :: "transformer \<Rightarrow> 'i table \<Rightarrow> error + transformer" where
  "transformer_fit (IntToFloatConverter cs conv) X =
     (case cs of
        None \<Rightarrow> (case int_columns X of
                  Inl e \<Rightarrow> Inl e
                | Inr cols \<Rightarrow> Inr (IntToFloatConverter cs cols))
      | Some cols \<Rightarrow>
          (if cols \<noteq> []
           then (case validate_columns ''IntToFloatConverter'' X cols of
                   Inl e \<Rightarrow> Inl e
                 | Inr u \<Rightarrow> Inr (IntToFloatConverter cs cols))
           else (case int_columns X of
                   Inl e \<Rightarrow> Inl e
                 | Inr cols' \<Rightarrow> Inr (IntToFloatConverter cs cols'))))"
| "transformer_fit (MeanImputer ic iv) X =
     (case validate_columns ''MeanImputer'' X ic of
        Inl e \<Rightarrow> Inl e
      | Inr u \<Rightarrow> (case learn_means ic X iv of Inl e \<Rightarrow> Inl e | Inr iv' \<Rightarrow> Inr (MeanImputer ic iv')))"
| "transformer_fit (GroupedAggregator ic g aggs oc df) X =
     (case validate_columns ''GroupedAggregator'' X (ic @ [g]) of
        Inl e \<Rightarrow> Inl e
      | Inr u \<Rightarrow>
          (if \<not> set (map fst aggs) \<subseteq> set (columns X) then Inl (KeyError ''Columns not found'')
           else (case key_dtype (column X g) of
                   None \<Rightarrow> Inl (NotModelled ''group keys of mixed types'')
                 | Some dt \<Rightarrow>
                     (case groupby_agg X g aggs of
                        Inl e \<Rightarrow> Inl e
                      | Inr ls \<Rightarrow>
                          (if length oc \<noteq> length (agg_pairs aggs) then Inl (ValueError ''Length mismatch'')
                           else Inr (GroupedAggregator ic g aggs oc (Some (oc, dt, ls))))))))"
| "transformer_fit (ColumnSubtractor ic oc a b) X =
     (case validate_columns ''ColumnSubtractor'' X ic of
        Inl e \<Rightarrow> Inl e
      | Inr u \<Rightarrow> Inr (ColumnSubtractor ic oc a b))"
| "transformer_fit (AbsoluteDifference ic oc a b) X =
     (case validate_columns ''AbsoluteDifference'' X ic of
        Inl e \<Rightarrow> Inl e
      | Inr u \<Rightarrow> Inr (AbsoluteDifference ic oc a b))"
| "transformer_fit (ThresholdBinarizer i oc t) X =
     (case validate_columns ''ThresholdBinarizer'' X [i] of
        Inl e \<Rightarrow> Inl e
      | Inr u \<Rightarrow> Inr (ThresholdBinarizer i oc t))"

fun transformer_transform :: "transformer \<Rightarrow> 'i table \<Rightarrow> error + 'i table" where
  "transformer_transform (IntToFloatConverter cs conv) X =
     (if conv = [] then Inr X else convert_columns conv X)"
| "transformer_transform (MeanImputer ic iv) X = Inr (fillna iv X)"
| "transformer_transform (GroupedAggregator ic g aggs oc df) X =
     (case validate_columns ''GroupedAggregator'' X [g] of
        Inl e \<Rightarrow> Inl e
      | Inr u \<Rightarrow>
          (if list_ex (\<lambda>col. col \<in> set (columns X)) oc
           then Inl (ValueError_would_overwrite ''GroupedAggregator'' oc)
           else (case df of
                   None \<Rightarrow> Inl (TypeError ''Can only merge Series or DataFrame objects'')
                 | Some d \<Rightarrow> merge_agg X g d)))"
| "transformer_transform (ColumnSubtractor ic oc a b) X =
     (case validate_columns ''ColumnSubtractor'' X ic of
        Inl e \<Rightarrow> Inl e
      | Inr u \<Rightarrow>
          (if oc \<in> set (columns X) then Inl (ValueError_would_overwrite ''ColumnSubtractor'' [oc])
           else (case difference_column X a b of
                   Inl e \<Rightarrow> Inl e
                 | Inr vs \<Rightarrow> Inr (assign_column oc vs X))))"
| "transformer_transform (AbsoluteDifference ic oc a b) X =
     (case validate_columns ''AbsoluteDifference'' X ic of
        Inl e \<Rightarrow> Inl e
      | Inr u \<Rightarrow>
          (if oc \<in> set (columns X) then Inl (ValueError_would_overwrite ''AbsoluteDifference'' [oc])
           else (case difference_column X a b of
                   Inl e \<Rightarrow> Inl e
                 | Inr vs \<Rightarrow> Inr (assign_column oc (map cell_abs vs) X))))"
| "transformer_transform (ThresholdBinarizer i oc t) X =
     (case validate_columns ''ThresholdBinarizer'' X [i] of
        Inl e \<Rightarrow> Inl e
      | Inr u \<Rightarrow>
          (if oc \<in> set (columns X) then Inl (ValueError_would_overwrite ''ThresholdBinarizer'' [oc])
           else (case sequence (map (cell_gt_flag t) (column X i)) of
                   Inl e \<Rightarrow> Inl e
                 | Inr vs \<Rightarrow> Inr (assign_column oc vs X))))"

text \<open>
  What each method hands to \<open>_validate_columns\<close> (nothing where it does not call it),
  and the column names a step writes.
\<close>

fun validated_by_fit :: "transformer \<Rightarrow> string list" where
  "validated_by_fit (IntToFloatConverter cs conv) = (case cs of None \<Rightarrow> [] | Some cols \<Rightarrow> cols)"
| "validated_by_fit (MeanImputer ic iv) = ic"
| "validated_by_fit (GroupedAggregator ic g aggs oc df) = ic @ [g]"
| "validated_by_fit (ColumnSubtractor ic oc a b) = ic"
| "validated_by_fit (AbsoluteDifference ic oc a b) = ic"
| "validated_by_fit (ThresholdBinarizer i oc t) = [i]"

fun validated_by_transform :: "transformer \<Rightarrow> string list" where
  "validated_by_transform (IntToFloatConverter cs conv) = []"
| "validated_by_transform (MeanImputer ic iv) = []"
| "validated_by_transform (GroupedAggregator ic g aggs oc df) = [g]"
| "validated_by_transform (ColumnSubtractor ic oc a b) = ic"
| "validated_by_transform (AbsoluteDifference ic oc a b) = ic"
| "validated_by_transform (ThresholdBinarizer i oc t) = [i]"

fun output_columns :: "transformer \<Rightarrow> string list" where
  "output_columns (IntToFloatConverter cs conv) = []"
| "output_columns (MeanImputer ic iv) = []"
| "output_columns (GroupedAggregator ic g aggs oc df) = oc"
| "output_columns (ColumnSubtractor ic oc a b) = [oc]"
| "output_columns (AbsoluteDifference ic oc a b) = [oc]"
| "output_columns (ThresholdBinarizer i oc t) = [oc]"

section \<open>The dynamic step resolver\<close>

text \<open>
  A step is declared by a name, a class path and the keyword arguments of the
  constructor. The values of the arguments are those the six constructors are annotated
  with: nothing, a string, a float, a list of strings, a dictionary of string lists.
\<close>

datatype pvalue = PNone | PStr string | PFloat real | PList "string list" | PDict "(string \<times> string list) list"

record PreprocessorStepConfig =
  name :: string
  class_path :: string
  params :: "(string \<times> pvalue) list"

record StepMetadataConfig = PreprocessorStepConfig +
  source_hash :: string

text \<open>
  The interpreter's modules are a parameter: \<open>importlib.import_module\<close> finds a module
  (its attributes by name) or fails, and \<open>getattr\<close> finds an attribute or fails. An
  attribute is called with the keyword arguments and returns a transformer or raises.
\<close>

type_synonym class_obj = "(string \<times> pvalue) list \<Rightarrow> error + transformer"

type_synonym modules = "string \<Rightarrow> (string \<Rightarrow> class_obj option) option"

definition DEFAULT_MODULE_PREFIX :: string where
  "DEFAULT_MODULE_PREFIX = ''src.data.preprocessor.''"

definition startswith :: "string \<Rightarrow> string \<Rightarrow> bool" where
  "startswith s p = (take (length p) s = p)"

text \<open>\<open>s.split('.')[0]\<close>: the text before the first dot.\<close>

definition split_first :: "string \<Rightarrow> string" where
  "split_first s = takeWhile (\<lambda>c. c \<noteq> CHR ''.'') s"

text \<open>
  \<open>a, b = s.rsplit('.', 1)\<close>: the text before and after the last dot; without a dot the
  unpacking raises \<open>ValueError\<close>, here \<open>None\<close>.
\<close>

definition rsplit1 :: "string \<Rightarrow> (string \<times> string) option" where
  "rsplit1 s =
     (if CHR ''.'' \<notin> set s then None
      else Some (rev (tl (dropWhile (\<lambda>c. c \<noteq> CHR ''.'') (rev s))),
                 rev (takeWhile (\<lambda>c. c \<noteq> CHR ''.'') (rev s))))"

text \<open>The first block of \<open>_create_transformer_from_config\<close>: the path that is imported.\<close>

definition expanded_class_path :: "string \<Rightarrow> string" where
  "expanded_class_path cp =
     (if CHR ''.'' \<in> set cp \<and> \<not> startswith cp DEFAULT_MODULE_PREFIX
      then (if split_first cp \<noteq> ''src'' then DEFAULT_MODULE_PREFIX @ cp else cp)
      else cp)"

text \<open>
  \<open>_create_transformer_from_config\<close>. The three exceptions of the \<open>try\<close> block become one
  \<open>ImportError\<close> that names the configured path; the constructor is called after the
  block, so what it raises is raised as it is.
\<close>

definition create_transformer_from_config :: "modules \<Rightarrow> PreprocessorStepConfig \<Rightarrow> error + transformer" where
  "create_transformer_from_config import_module cfg =
     (case rsplit1 (expanded_class_path (class_path cfg)) of
        None \<Rightarrow> Inl (ImportError (class_path cfg))
      | Some (module_path, cls_name) \<Rightarrow>
          (case import_module module_path of
             None \<Rightarrow> Inl (ImportError (class_path cfg))
           | Some found_module \<Rightarrow>
               (case found_module cls_name of
                  None \<Rightarrow> Inl (ImportError (class_path cfg))
                | Some transformer_class \<Rightarrow> transformer_class (params cfg))))"

subsection \<open>The constructors of \<open>feature_store\<close>\<close>

text \<open>
  Calling a class with keyword arguments raises \<open>TypeError\<close> for a keyword the
  constructor does not have and for a missing keyword without a default. Python does not
  look at the values; the model's fields are typed, so a value of another shape than the
  annotation is outside the model.
\<close>

definition bind_kwargs :: "string \<Rightarrow> string list \<Rightarrow> string list \<Rightarrow> (string \<times> pvalue) list \<Rightarrow> error option" where
  "bind_kwargs cls required optional ps =
     (if \<not> set (map fst ps) \<subseteq> set (required @ optional)
      then Some (TypeError (cls @ ''.__init__() got an unexpected keyword argument''))
      else if \<not> set required \<subseteq> set (map fst ps)
      then Some (TypeError (cls @ ''.__init__() missing required positional arguments''))
      else None)"

fun the_list :: "pvalue option \<Rightarrow> string list option" where
  "the_list (Some (PList xs)) = Some xs"
| "the_list v = None"

fun the_str :: "pvalue option \<Rightarrow> string option" where
  "the_str (Some (PStr x)) = Some x"
| "the_str v = None"

fun the_float :: "pvalue option \<Rightarrow> real option" where
  "the_float (Some (PFloat x)) = Some x"
| "the_float v = None"

fun the_dict :: "pvalue option \<Rightarrow> (string \<times> string list) list option" where
  "the_dict (Some (PDict x)) = Some x"
| "the_dict v = None"

definition other_shape :: error where
  "other_shape = NotModelled ''argument of another shape than annotated''"

definition new_IntToFloatConverter :: class_obj where
  "new_IntToFloatConverter ps =
     (case bind_kwargs ''IntToFloatConverter'' [] [''columns''] ps of
        Some e \<Rightarrow> Inl e
      | None \<Rightarrow>
          (case map_of ps ''columns'' of
             None \<Rightarrow> Inr (IntToFloatConverter None [])
           | Some PNone \<Rightarrow> Inr (IntToFloatConverter None [])
           | Some (PList cs) \<Rightarrow> Inr (IntToFloatConverter (Some cs) [])
           | Some v \<Rightarrow> Inl other_shape))"

definition new_MeanImputer :: class_obj where
  "new_MeanImputer ps =
     (case bind_kwargs ''MeanImputer'' [''input_cols''] [] ps of
        Some e \<Rightarrow> Inl e
      | None \<Rightarrow>
          (case the_list (map_of ps ''input_cols'') of
             Some ic \<Rightarrow> Inr (MeanImputer ic [])
           | None \<Rightarrow> Inl other_shape))"

definition new_GroupedAggregator :: class_obj where
  "new_GroupedAggregator ps =
     (case bind_kwargs ''GroupedAggregator'' [''input_cols'', ''groupby_col'', ''aggregations'', ''output_cols''] [] ps of
        Some e \<Rightarrow> Inl e
      | None \<Rightarrow>
          (case (the_list (map_of ps ''input_cols''), the_str (map_of ps ''groupby_col''),
                 the_dict (map_of ps ''aggregations''), the_list (map_of ps ''output_cols'')) of
             (Some ic, Some g, Some aggs, Some oc) \<Rightarrow> Inr (GroupedAggregator ic g aggs oc None)
           | other \<Rightarrow> Inl other_shape))"

definition new_ColumnSubtractor :: class_obj where
  "new_ColumnSubtractor ps =
     (case bind_kwargs ''ColumnSubtractor'' [''input_cols'', ''output_col'', ''col_a'', ''col_b''] [] ps of
        Some e \<Rightarrow> Inl e
      | None \<Rightarrow>
          (case (the_list (map_of ps ''input_cols''), the_str (map_of ps ''output_col''),
                 the_str (map_of ps ''col_a''), the_str (map_of ps ''col_b'')) of
             (Some ic, Some oc, Some a, Some b) \<Rightarrow> Inr (ColumnSubtractor ic oc a b)
           | other \<Rightarrow> Inl other_shape))"

definition new_AbsoluteDifference :: class_obj where
  "new_AbsoluteDifference ps =
     (case bind_kwargs ''AbsoluteDifference'' [''input_cols'', ''output_col'', ''col_a'', ''col_b''] [] ps of
        Some e \<Rightarrow> Inl e
      | None \<Rightarrow>
          (case (the_list (map_of ps ''input_cols''), the_str (map_of ps ''output_col''),
                 the_str (map_of ps ''col_a''), the_str (map_of ps ''col_b'')) of
             (Some ic, Some oc, Some a, Some b) \<Rightarrow> Inr (AbsoluteDifference ic oc a b)
           | other \<Rightarrow> Inl other_shape))"

definition new_ThresholdBinarizer :: class_obj where
  "new_ThresholdBinarizer ps =
     (case bind_kwargs ''ThresholdBinarizer'' [''input_col'', ''output_col'', ''threshold''] [] ps of
        Some e \<Rightarrow> Inl e
      | None \<Rightarrow>
          (case (the_str (map_of ps ''input_col''), the_str (map_of ps ''output_col''),
                 the_float (map_of ps ''threshold'')) of
             (Some i, Some oc, Some t) \<Rightarrow> Inr (ThresholdBinarizer i oc t)
           | other \<Rightarrow> Inl other_shape))"

text \<open>
  The module \<open>src.data.preprocessor.feature_store\<close>: its six concrete classes and the
  other names it holds. The abstract base class cannot be instantiated, and \<open>pd\<close> and
  \<open>abstractmethod\<close> cannot be called with keyword arguments only: \<open>TypeError\<close>.
  \<open>ABC\<close>, \<open>BaseEstimator\<close> and \<open>TransformerMixin\<close> take no arguments; without any they give
  an object that is no step, which the model leaves out, as it does the special attributes
  that every module has (\<open>__name__\<close>, \<open>__class__\<close> and the like). The module table after
  it holds this module only (the examples below need no other).
\<close>

definition not_a_step :: class_obj where
  "not_a_step ps = Inl (TypeError ''object is not callable with these arguments'')"

definition plain_class :: class_obj where
  "plain_class ps =
     (if ps = [] then Inl (NotModelled ''an object that is no step'')
      else Inl (TypeError ''takes no arguments''))"

definition special_attribute :: class_obj where
  "special_attribute ps = Inl (NotModelled ''a special attribute of the module'')"

definition feature_store :: "string \<Rightarrow> class_obj option" where
  "feature_store attr =
     (if attr = ''IntToFloatConverter'' then Some new_IntToFloatConverter
      else if attr = ''MeanImputer'' then Some new_MeanImputer
      else if attr = ''GroupedAggregator'' then Some new_GroupedAggregator
      else if attr = ''ColumnSubtractor'' then Some new_ColumnSubtractor
      else if attr = ''AbsoluteDifference'' then Some new_AbsoluteDifference
      else if attr = ''ThresholdBinarizer'' then Some new_ThresholdBinarizer
      else if attr \<in> set [''FeatureTransformer'', ''pd'', ''abstractmethod''] then Some not_a_step
      else if attr \<in> set [''ABC'', ''BaseEstimator'', ''TransformerMixin''] then Some plain_class
      else if startswith attr ''__'' then Some special_attribute
      else None)"

definition repo_modules :: modules where
  "repo_modules path = (if path = ''src.data.preprocessor.feature_store'' then Some feature_store else None)"

section \<open>The pipeline orchestrator: \<open>FeaturesPreprocessor\<close>\<close>

text \<open>
  \<open>fitted_steps\<close> is the attribute \<open>self.fitted_steps\<close>: \<open>None\<close> while the object has no
  such attribute (\<open>hasattr\<close> is false).
\<close>

record FeaturesPreprocessor =
  steps :: "PreprocessorStepConfig list"
  fitted_steps :: "transformer list option"

definition FeaturesPreprocessor_init :: "PreprocessorStepConfig list \<Rightarrow> FeaturesPreprocessor" where
  "FeaturesPreprocessor_init step_configs = \<lparr>steps = step_configs, fitted_steps = None\<rparr>"

text \<open>
  The loop of \<open>fit\<close>, with the list of fitted steps that it appends to. The list is
  returned also when a step raises, since the exception leaves the attribute as it is:
  the first component is the exception, if any.
\<close>

fun fit_steps ::
  "modules \<Rightarrow> PreprocessorStepConfig list \<Rightarrow> transformer list \<Rightarrow> 'i table \<Rightarrow> error option \<times> transformer list" where
  "fit_steps import_module [] fitted df_temp = (None, fitted)"
| "fit_steps import_module (step_config # rest) fitted df_temp =
     (case create_transformer_from_config import_module step_config of
        Inl e \<Rightarrow> (Some e, fitted)
      | Inr transformer \<Rightarrow>
          (case transformer_fit transformer df_temp of
             Inl e \<Rightarrow> (Some e, fitted)
           | Inr transformer' \<Rightarrow>
               (case transformer_transform transformer' df_temp of
                  Inl e \<Rightarrow> (Some e, fitted @ [transformer'])
                | Inr df_next \<Rightarrow> fit_steps import_module rest (fitted @ [transformer']) df_next)))"

definition FeaturesPreprocessor_fit ::
  "modules \<Rightarrow> FeaturesPreprocessor \<Rightarrow> 'i table \<Rightarrow> error option \<times> FeaturesPreprocessor" where
  "FeaturesPreprocessor_fit import_module self X =
     (case fit_steps import_module (steps self) [] X of
        (exc, fitted) \<Rightarrow> (exc, self\<lparr>fitted_steps := Some fitted\<rparr>))"

fun apply_steps :: "transformer list \<Rightarrow> 'i table \<Rightarrow> error + 'i table" where
  "apply_steps [] df_current = Inr df_current"
| "apply_steps (step # rest) df_current =
     (case transformer_transform step df_current of
        Inl e \<Rightarrow> Inl e
      | Inr df_next \<Rightarrow> apply_steps rest df_next)"

definition not_fitted_yet :: error where
  "not_fitted_yet = RuntimeError ''This preprocessor instance is not fitted yet.''"

definition FeaturesPreprocessor_transform :: "FeaturesPreprocessor \<Rightarrow> 'i table \<Rightarrow> error + 'i table" where
  "FeaturesPreprocessor_transform self X =
     (case fitted_steps self of
        None \<Rightarrow> Inl not_fitted_yet
      | Some fitted \<Rightarrow> apply_steps fitted X)"

definition has_not_been_fitted :: error where
  "has_not_been_fitted = RuntimeError ''Pipeline has not been fitted.''"

text \<open>
  \<open>get_metadata\<close>. The hash of a class's source text is a parameter: a function from the
  class name to the digest.
\<close>

definition get_metadata :: "(string \<Rightarrow> string) \<Rightarrow> FeaturesPreprocessor \<Rightarrow> error + StepMetadataConfig list" where
  "get_metadata class_hash self =
     (case fitted_steps self of
        None \<Rightarrow> Inl has_not_been_fitted
      | Some fitted \<Rightarrow>
          (if fitted = [] then Inl has_not_been_fitted
           else Inr (map (\<lambda>(cfg, step_instance).
                        \<lparr>name = name cfg, class_path = class_path cfg, params = params cfg,
                         source_hash = class_hash (class_name step_instance)\<rparr>)
                      (zip (steps self) fitted))))"

section \<open>The full-pipeline composer: \<open>FullPipelinePyFunc\<close>\<close>

text \<open>
  The scikit-learn pipeline as \<open>train.py\<close> builds it: the preprocessor, the selection of
  the feature columns, the classifier. The classifier's numerics are a parameter: its
  learned classes (the attribute \<open>classes_\<close>, an array with its element type, \<open>None\<close>
  before \<open>fit\<close>) and its prediction function on the selected feature rows.
\<close>

record ndarray =
  a_dtype :: dtype
  items :: "cell list"

record ColonyStrengthClassifier =
  classes :: "ndarray option"
  model_predict :: "(cell list list \<Rightarrow> error + ndarray) option"

record Pipeline =
  preprocessor :: FeaturesPreprocessor
  feature_columns :: "string list"
  classifier :: ColonyStrengthClassifier

record FullPipelinePyFunc =
  outlier_remover :: OutlierRemover
  sklearn_pipeline :: Pipeline

definition select_features :: "string list \<Rightarrow> 'i table \<Rightarrow> error + cell list list" where
  "select_features cols X =
     (if \<not> set cols \<subseteq> set (columns X) then Inl (ValueError ''columns are missing'')
      else Inr (map (\<lambda>r. map (cell_of r) cols) (rows X)))"

definition ColonyStrengthClassifier_predict :: "ColonyStrengthClassifier \<Rightarrow> cell list list \<Rightarrow> error + ndarray" where
  "ColonyStrengthClassifier_predict self M =
     (case model_predict self of
        None \<Rightarrow> Inl (AttributeError ''NoneType object has no attribute predict'')
      | Some f \<Rightarrow> f M)"

definition Pipeline_predict :: "Pipeline \<Rightarrow> 'i table \<Rightarrow> error + ndarray" where
  "Pipeline_predict p X =
     (case FeaturesPreprocessor_transform (preprocessor p) X of
        Inl e \<Rightarrow> Inl e
      | Inr Xt \<Rightarrow>
          (case select_features (feature_columns p) Xt of
             Inl e \<Rightarrow> Inl e
           | Inr M \<Rightarrow> ColonyStrengthClassifier_predict (classifier p) M))"

text \<open>\<open>DataFrame.empty\<close>: no rows or no columns.\<close>

definition empty :: "'i table \<Rightarrow> bool" where
  "empty X \<longleftrightarrow> rows X = [] \<or> columns X = []"

definition predict :: "FullPipelinePyFunc \<Rightarrow> 'i table \<Rightarrow> error + 'i series" where
  "predict self model_input =
     (case OutlierRemover_transform (outlier_remover self) model_input None of
        Inl e \<Rightarrow> Inl e
      | Inr (cleaned_x, u) \<Rightarrow>
          (if empty cleaned_x
           then (case classes (classifier (sklearn_pipeline self)) of
                   None \<Rightarrow> Inl (AttributeError ''NoneType object has no attribute dtype'')
                 | Some cl \<Rightarrow> Inr \<lparr>s_dtype = a_dtype cl, s_name = None, entries = []\<rparr>)
           else (let final_index = index cleaned_x
                 in case Pipeline_predict (sklearn_pipeline self) cleaned_x of
                      Inl e \<Rightarrow> Inl e
                    | Inr predictions_array \<Rightarrow>
                        (if length (items predictions_array) \<noteq> length final_index
                         then Inl (ValueError ''Length of values does not match length of index'')
                         else Inr \<lparr>s_dtype = a_dtype predictions_array, s_name = Some ''prediction'',
                                   entries = zip final_index (items predictions_array)\<rparr>))))"

section \<open>Example data\<close>

text \<open>The fixture of \<open>tests/test_outlier_remover.py\<close>, and what the filter makes of it.\<close>

definition sample_row :: "int \<Rightarrow> string \<Rightarrow> int \<Rightarrow> int \<Rightarrow> int \<Rightarrow> int row" where
  "sample_row i s t oc sz =
     (i, [(''sensor_id'', StrV s), (''temperature_sensor'', IntV t), (''other_col'', IntV oc), (''size'', IntV sz)])"

definition sample_data :: "int table" where
  "sample_data =
     \<lparr>columns = [''sensor_id'', ''temperature_sensor'', ''other_col'', ''size''],
      rows = [sample_row 0 ''A'' 20 1 1, sample_row 1 ''A'' 22 2 1, sample_row 2 ''A'' 21 3 1,
              sample_row 3 ''B'' 55 4 0, sample_row 4 ''B'' 54 5 0,
              sample_row 5 ''C'' 12 6 1, sample_row 6 ''C'' 11 7 1, sample_row 7 ''C'' 13 8 1,
              sample_row 8 ''C'' 12 9 1]\<rparr>"

definition sample_config :: OutlierRemoverConfig where
  "sample_config =
     \<lparr>group_by_column = ''sensor_id'', temperature_column = ''temperature_sensor'',
      max_temp_threshold = 50, min_temp_threshold = 10\<rparr>"

definition sample_means :: "(key \<times> cell) list" where
  "sample_means = [(StrKey ''A'', FloatV 21), (StrKey ''B'', FloatV (109 / 2)), (StrKey ''C'', FloatV 12)]"

definition sample_fitted :: OutlierRemover where
  "sample_fitted = \<lparr>config = sample_config, group_means = Some (object_dtype, sample_means)\<rparr>"

definition sample_filtered :: "int table" where
  "sample_filtered =
     \<lparr>columns = [''sensor_id'', ''temperature_sensor'', ''other_col'', ''size''],
      rows = [sample_row 0 ''A'' 20 1 1, sample_row 1 ''A'' 22 2 1, sample_row 2 ''A'' 21 3 1,
              sample_row 5 ''C'' 12 6 1, sample_row 6 ''C'' 11 7 1, sample_row 7 ''C'' 13 8 1,
              sample_row 8 ''C'' 12 9 1]\<rparr>"

definition sample_y :: "int series" where
  "sample_y =
     \<lparr>s_dtype = int64, s_name = Some ''size'',
      entries = [(0, IntV 1), (1, IntV 1), (2, IntV 1), (3, IntV 0), (4, IntV 0),
                 (5, IntV 1), (6, IntV 1), (7, IntV 1), (8, IntV 1)]\<rparr>"

definition sample_y_filtered :: "int series" where
  "sample_y_filtered =
     \<lparr>s_dtype = int64, s_name = Some ''size'',
      entries = [(0, IntV 1), (1, IntV 1), (2, IntV 1),
                 (5, IntV 1), (6, IntV 1), (7, IntV 1), (8, IntV 1)]\<rparr>"



definition unseen_data :: "int table" where
  "unseen_data =
     \<lparr>columns = [''sensor_id'', ''temperature_sensor'', ''other_col'', ''size''],
      rows = [sample_row 0 ''D'' 20 1 1, sample_row 1 ''D'' 21 2 1]\<rparr>"

definition no_rows :: "int table" where
  "no_rows = \<lparr>columns = [''sensor_id'', ''temperature_sensor'', ''other_col'', ''size''], rows = []\<rparr>"












text \<open>A composer around the fitted filter, with a classifier that has learned the labels 0 and 1.\<close>

definition sample_classes :: ndarray where
  "sample_classes = \<lparr>a_dtype = int64, items = [IntV 0, IntV 1]\<rparr>"

definition sample_model :: FullPipelinePyFunc where
  "sample_model =
     \<lparr>outlier_remover = sample_fitted,
      sklearn_pipeline =
        \<lparr>preprocessor = \<lparr>steps = [], fitted_steps = Some []\<rparr>,
         feature_columns = [''temperature_sensor'', ''other_col''],
         classifier = \<lparr>classes = Some sample_classes,
                       model_predict = Some (\<lambda>M. Inr \<lparr>a_dtype = int64, items = map (\<lambda>features. IntV 1) M\<rparr>)\<rparr>\<rparr>\<rparr>"

text \<open>The steps and the frame of \<open>tests/test_preprocessor.py\<close>, and what fitting makes of them.\<close>

definition int_to_float_step :: PreprocessorStepConfig where
  "int_to_float_step =
     \<lparr>name = ''int_to_float'', class_path = ''feature_store.IntToFloatConverter'',
      params = [(''columns'', PList [''int_col''])]\<rparr>"

definition mean_imputer_step :: PreprocessorStepConfig where
  "mean_imputer_step =
     \<lparr>name = ''mean_imputer'', class_path = ''feature_store.MeanImputer'',
      params = [(''input_cols'', PList [''float_col''])]\<rparr>"

definition column_subtractor_step :: PreprocessorStepConfig where
  "column_subtractor_step =
     \<lparr>name = ''column_subtractor'', class_path = ''feature_store.ColumnSubtractor'',
      params = [(''input_cols'', PList [''float_col'', ''int_col'']), (''output_col'', PStr ''diff_col''),
                (''col_a'', PStr ''float_col''), (''col_b'', PStr ''int_col'')]\<rparr>"

definition threshold_binarizer_step :: PreprocessorStepConfig where
  "threshold_binarizer_step =
     \<lparr>name = ''threshold_binarizer'', class_path = ''feature_store.ThresholdBinarizer'',
      params = [(''input_col'', PStr ''float_col''), (''output_col'', PStr ''bin_col''),
                (''threshold'', PFloat (3 / 2))]\<rparr>"

definition test_steps :: "PreprocessorStepConfig list" where
  "test_steps = [int_to_float_step, mean_imputer_step, column_subtractor_step, threshold_binarizer_step]"

definition test_df :: "int table" where
  "test_df =
     \<lparr>columns = [''int_col'', ''float_col''],
      rows = [(0, [(''int_col'', IntV 1), (''float_col'', FloatV 1)]),
              (1, [(''int_col'', IntV 2), (''float_col'', FloatV 2)]),
              (2, [(''int_col'', IntV 3), (''float_col'', NaN)]),
              (3, [(''int_col'', IntV 4), (''float_col'', FloatV 4)])]\<rparr>"

definition subtractor :: transformer where
  "subtractor = ColumnSubtractor [''float_col'', ''int_col''] ''diff_col'' ''float_col'' ''int_col''"

definition binarizer :: transformer where
  "binarizer = ThresholdBinarizer ''float_col'' ''bin_col'' (3 / 2)"

definition test_fitted_steps :: "transformer list" where
  "test_fitted_steps =
     [IntToFloatConverter (Some [''int_col'']) [''int_col''],
      MeanImputer [''float_col''] [(''float_col'', FloatV (7 / 3))],
      subtractor, binarizer]"

definition test_fitted :: FeaturesPreprocessor where
  "test_fitted = \<lparr>steps = test_steps, fitted_steps = Some test_fitted_steps\<rparr>"

definition test_result :: "int table" where
  "test_result =
     \<lparr>columns = [''int_col'', ''float_col'', ''diff_col'', ''bin_col''],
      rows = [(0, [(''int_col'', FloatV 1), (''float_col'', FloatV 1), (''diff_col'', FloatV 0), (''bin_col'', IntV 0)]),
              (1, [(''int_col'', FloatV 2), (''float_col'', FloatV 2), (''diff_col'', FloatV 0), (''bin_col'', IntV 1)]),
              (2, [(''int_col'', FloatV 3), (''float_col'', FloatV (7 / 3)), (''diff_col'', FloatV (- (2 / 3))), (''bin_col'', IntV 1)]),
              (3, [(''int_col'', FloatV 4), (''float_col'', FloatV 4), (''diff_col'', FloatV 0), (''bin_col'', IntV 1)])]\<rparr>"

definition sample_hash :: "string \<Rightarrow> string" where
  "sample_hash cls = ''sha256 of the source of '' @ cls"

definition test_metadata :: "StepMetadataConfig list" where
  "test_metadata =
     [\<lparr>name = ''int_to_float'', class_path = ''feature_store.IntToFloatConverter'',
       params = [(''columns'', PList [''int_col''])],
       source_hash = ''sha256 of the source of IntToFloatConverter''\<rparr>,
      \<lparr>name = ''mean_imputer'', class_path = ''feature_store.MeanImputer'',
       params = [(''input_cols'', PList [''float_col''])],
       source_hash = ''sha256 of the source of MeanImputer''\<rparr>,
      \<lparr>name = ''column_subtractor'', class_path = ''feature_store.ColumnSubtractor'',
       params = [(''input_cols'', PList [''float_col'', ''int_col'']), (''output_col'', PStr ''diff_col''),
                 (''col_a'', PStr ''float_col''), (''col_b'', PStr ''int_col'')],
       source_hash = ''sha256 of the source of ColumnSubtractor''\<rparr>,
      \<lparr>name = ''threshold_binarizer'', class_path = ''feature_store.ThresholdBinarizer'',
       params = [(''input_col'', PStr ''float_col''), (''output_col'', PStr ''bin_col''),
                 (''threshold'', PFloat (3 / 2))],
       source_hash = ''sha256 of the source of ThresholdBinarizer''\<rparr>]"

text \<open>
  A frame without \<open>int_col\<close>, on which the second of two steps fails, and the
  orchestrator as that failed \<open>fit\<close> leaves it.
\<close>

definition short_df :: "int table" where
  "short_df =
     \<lparr>columns = [''float_col''],
      rows = [(0, [(''float_col'', FloatV 1)]), (1, [(''float_col'', NaN)])]\<rparr>"

definition short_df_filled :: "int table" where
  "short_df_filled =
     \<lparr>columns = [''float_col''],
      rows = [(0, [(''float_col'', FloatV 1)]), (1, [(''float_col'', FloatV 1)])]\<rparr>"

definition half_fitted :: FeaturesPreprocessor where
  "half_fitted =
     \<lparr>steps = [mean_imputer_step, column_subtractor_step],
      fitted_steps = Some [MeanImputer [''float_col''] [(''float_col'', FloatV 1)]]\<rparr>"

text \<open>A frame that has the output column of the subtraction but not its second input.\<close>

definition clash_df :: "int table" where
  "clash_df =
     \<lparr>columns = [''float_col'', ''diff_col''],
      rows = [(0, [(''float_col'', FloatV 1), (''diff_col'', FloatV 0)])]\<rparr>"

definition aggregator :: transformer where
  "aggregator = GroupedAggregator [''float_col''] ''int_col'' [(''float_col'', [''mean'', ''max''])]
                  [''diff_col'', ''bin_col''] None"

definition bare_step :: PreprocessorStepConfig where
  "bare_step = \<lparr>name = ''mean_imputer'', class_path = ''MeanImputer'',
                params = [(''input_cols'', PList [''float_col''])]\<rparr>"

definition qualified_step :: PreprocessorStepConfig where
  "qualified_step = \<lparr>name = ''mean_imputer'', class_path = ''src.data.preprocessor.feature_store.MeanImputer'',
                     params = [(''input_cols'', PList [''float_col''])]\<rparr>"

definition unknown_class_step :: PreprocessorStepConfig where
  "unknown_class_step = \<lparr>name = ''scaler'', class_path = ''feature_store.Scaler'', params = []\<rparr>"

definition unknown_module_step :: PreprocessorStepConfig where
  "unknown_module_step = \<lparr>name = ''scaler'', class_path = ''scalers.Scaler'', params = []\<rparr>"

definition no_params_step :: PreprocessorStepConfig where
  "no_params_step = \<lparr>name = ''mean_imputer'', class_path = ''feature_store.MeanImputer'', params = []\<rparr>"

section \<open>Evaluating the examples\<close>

text \<open>The conversion of an integer to a float keeps an integer up to \<open>2 ^ 53\<close>.\<close>

lemma bit_length_le: "n < 2 ^ k \<Longrightarrow> bit_length n \<le> k"
proof (induction k arbitrary: n)
  case 0
  then show ?case by (simp add: bit_length.simps)
next
  case (Suc k)
  show ?case
  proof (cases "n = 0")
    case True
    then show ?thesis by (simp add: bit_length.simps)
  next
    case False
    from Suc.prems have "n div 2 < 2 ^ k" by simp
    from Suc.IH[OF this] False show ?thesis by (subst bit_length.simps) simp
  qed
qed

lemma bit_length_power: "bit_length (2 ^ k) = Suc k"
proof (induction k)
  case 0
  show ?case by (simp add: bit_length.simps)
next
  case (Suc k)
  have "bit_length (2 ^ Suc k) = Suc (bit_length (2 ^ Suc k div 2))"
    by (subst bit_length.simps) simp
  with Suc show ?case by simp
qed

lemma float64_of_int_small:
  assumes "\<bar>n\<bar> \<le> 2 ^ 53"
  shows "float64_of_int n = n"
proof -
  define a where "a = nat \<bar>n\<bar>"
  define e where "e = bit_length a - 53"
  have n: "sgn n * int a = n" by (simp add: a_def abs_if sgn_if)
  have "(if 2 ^ e < 2 * (a mod 2 ^ e) \<or> (2 * (a mod 2 ^ e) = 2 ^ e \<and> odd (a div 2 ^ e))
         then a div 2 ^ e + 1 else a div 2 ^ e) * 2 ^ e = a"
  proof (cases "a = 2 ^ 53")
    case True
    have "e = 1" unfolding e_def True bit_length_power by simp
    then show ?thesis by (simp add: True)
  next
    case False
    with assms have "a < 2 ^ 53" by (simp add: a_def)
    from bit_length_le[OF this] have "e = 0" by (simp add: e_def)
    then show ?thesis by simp
  qed
  then have "float64_of_int n = sgn n * int a"
    unfolding float64_of_int_def Let_def a_def e_def by (rule arg_cong)
  with n show ?thesis by simp
qed




lemmas filter_defs = OutlierRemover_transform_def OutlierRemover_fit_def OutlierRemover_init_def
  groupby_mean_def group_key_def cell_of_def series_mean_def mean_col_name_def merge_left_def
  joined_rows_def matches_def joins_def key_compat_def key_dtype_def column_def
  mask_of_def drop_column_def loc_def index_def s_index_def Let_def

lemmas sample_defs = sample_data_def sample_config_def sample_fitted_def sample_means_def
  sample_row_def sample_filtered_def sample_y_def sample_y_filtered_def





lemma unseen_transform:
  "OutlierRemover_transform sample_fitted unseen_data None = Inr (no_rows, None)"
  by (simp add: filter_defs sample_defs unseen_data_def no_rows_def)






lemmas resolver_defs = create_transformer_from_config_def expanded_class_path_def startswith_def
  DEFAULT_MODULE_PREFIX_def split_first_def rsplit1_def repo_modules_def feature_store_def bind_kwargs_def

lemma create_int_to_float:
  "create_transformer_from_config repo_modules int_to_float_step = Inr (IntToFloatConverter (Some [''int_col'']) [])"
  by (simp add: int_to_float_step_def resolver_defs new_IntToFloatConverter_def)

lemma create_mean_imputer:
  "create_transformer_from_config repo_modules mean_imputer_step = Inr (MeanImputer [''float_col''] [])"
  by (simp add: mean_imputer_step_def resolver_defs new_MeanImputer_def)

lemma create_column_subtractor:
  "create_transformer_from_config repo_modules column_subtractor_step = Inr subtractor"
  by (simp add: column_subtractor_step_def resolver_defs new_ColumnSubtractor_def subtractor_def)

lemma create_threshold_binarizer:
  "create_transformer_from_config repo_modules threshold_binarizer_step = Inr binarizer"
  by (simp add: threshold_binarizer_step_def resolver_defs new_ThresholdBinarizer_def binarizer_def)

lemmas table_defs = validate_columns_def column_def cell_of_def assign_column_def series_mean_def
  fillna_def difference_column_def

lemma test_fit:
  "FeaturesPreprocessor_fit repo_modules (FeaturesPreprocessor_init test_steps) test_df = (None, test_fitted)"
  by (simp add: FeaturesPreprocessor_fit_def FeaturesPreprocessor_init_def test_steps_def
      create_int_to_float create_mean_imputer create_column_subtractor create_threshold_binarizer
      subtractor_def binarizer_def test_df_def table_defs test_fitted_steps_def test_fitted_def)

lemma test_transform: "FeaturesPreprocessor_transform test_fitted test_df = Inr test_result"
  by (simp add: FeaturesPreprocessor_transform_def test_fitted_def test_fitted_steps_def
      subtractor_def binarizer_def test_df_def table_defs test_result_def float64_of_int_small)

lemma test_get_metadata: "get_metadata sample_hash test_fitted = Inr test_metadata"
  by (simp add: get_metadata_def test_fitted_def test_fitted_steps_def test_steps_def
      int_to_float_step_def mean_imputer_step_def column_subtractor_step_def threshold_binarizer_step_def
      subtractor_def binarizer_def sample_hash_def test_metadata_def)

section \<open>Lemmas about the model\<close>






lemma sequence_length: "sequence xs = Inr vs \<Longrightarrow> length vs = length xs"
  by (induction xs arbitrary: vs) (auto split: sum.splits)





















lemma astype_errors:
  "sequence (map astype_float64 cs) = Inl e \<Longrightarrow> e = ValueError ''could not convert string to float''"
proof (induction cs)
  case Nil
  then show ?case by simp
next
  case (Cons c cs)
  then show ?case by (cases c) (auto split: sum.splits)
qed

lemma convert_columns_errors:
  "convert_columns cols X = Inl e \<Longrightarrow> e = ValueError ''could not convert string to float''"
  by (induction cols X rule: convert_columns.induct) (auto split: if_splits sum.splits dest: astype_errors)

lemma validate_columns_ok:
  "set req \<subseteq> set (columns X) \<Longrightarrow> validate_columns cls X req = Inr ()"
  by (auto simp: validate_columns_def)

lemma validate_columns_missing:
  "\<not> set req \<subseteq> set (columns X) \<Longrightarrow>
   validate_columns cls X req = Inl (ValueError_missing_columns cls (set req - set (columns X)))"
  by (auto simp: validate_columns_def Let_def)

lemma fit_steps_length:
  "fit_steps import_module cfgs acc df = (None, fitted) \<Longrightarrow> length fitted = length acc + length cfgs"
  by (induction cfgs arbitrary: acc df) (auto split: sum.splits)

lemma fit_length:
  assumes "FeaturesPreprocessor_fit import_module self X = (None, self')"
  shows "steps self' = steps self
     \<and> (\<exists>fitted. fitted_steps self' = Some fitted \<and> length fitted = length (steps self))"
  using assms by (auto simp: FeaturesPreprocessor_fit_def split: prod.splits dest: fit_steps_length)

lemma metadata_configs:
  "length cfgs = length ts \<Longrightarrow>
   map (\<lambda>m. \<lparr>name = name m, class_path = class_path m, params = params m\<rparr>)
     (map (\<lambda>(cfg, t). \<lparr>name = name cfg, class_path = class_path cfg, params = params cfg, source_hash = h t\<rparr>)
        (zip cfgs ts)) = cfgs"
  by (induction cfgs ts rule: list_induct2) auto

lemma rsplit1_parts:
  assumes "rsplit1 s = Some (m, c)"
  shows "s = m @ ''.'' @ c \<and> CHR ''.'' \<notin> set c"
proof -
  let ?P = "\<lambda>x. x \<noteq> CHR ''.''"
  from assms have dot: "CHR ''.'' \<in> set s"
    and m: "m = rev (tl (dropWhile ?P (rev s)))" and c: "c = rev (takeWhile ?P (rev s))"
    by (auto simp: rsplit1_def split: if_splits)
  from dot have "dropWhile ?P (rev s) \<noteq> []" by (auto simp: dropWhile_eq_Nil_conv)
  moreover have "hd (dropWhile ?P (rev s)) = CHR ''.''"
    using calculation hd_dropWhile[of ?P "rev s"] by blast
  ultimately have d: "dropWhile ?P (rev s) = CHR ''.'' # tl (dropWhile ?P (rev s))"
    by (metis list.collapse)
  have "rev s = takeWhile ?P (rev s) @ dropWhile ?P (rev s)" by simp
  then have "rev s = takeWhile ?P (rev s) @ CHR ''.'' # tl (dropWhile ?P (rev s))"
    using d by simp
  then have "rev (rev s) = rev (takeWhile ?P (rev s) @ CHR ''.'' # tl (dropWhile ?P (rev s)))"
    by (rule arg_cong)
  then have "s = m @ ''.'' @ c" by (simp add: m c)
  moreover have "CHR ''.'' \<notin> set c" unfolding c by (auto dest: set_takeWhileD)
  ultimately show ?thesis by simp
qed

section \<open>Properties of the specification\<close>

text \<open>
  In what follows a fitted filter is one that \<open>fit\<close> has returned, and a result of
  \<open>transform\<close> is a value \<open>Inr\<close>: where \<open>transform\<close> raises there is no table to speak of.
\<close>







text \<open>
  C3. For every composer whose filter returns a table without rows on the raw input and
  whose classifier is fitted (it has its learned classes), \<open>predict\<close> returns, and
  returns the empty series whose element type is that of the learned classes.
\<close>

theorem predict_empty_survivors:
  assumes "OutlierRemover_transform (outlier_remover self) X None = Inr (cleaned_x, u)"
    and "rows cleaned_x = []"
    and "classes (classifier (sklearn_pipeline self)) = Some cl"
  shows "predict self X = Inr \<lparr>s_dtype = a_dtype cl, s_name = None, entries = []\<rparr>"
  using assms by (simp add: predict_def empty_def)

theorem predict_empty_survivors_witness:
  "OutlierRemover_transform (outlier_remover sample_model) unseen_data None = Inr (no_rows, None)
   \<and> rows unseen_data \<noteq> [] \<and> rows no_rows = []
   \<and> classes (classifier (sklearn_pipeline sample_model)) = Some sample_classes
   \<and> predict sample_model unseen_data = Inr \<lparr>s_dtype = int64, s_name = None, entries = []\<rparr>"
proof -
  have t: "OutlierRemover_transform (outlier_remover sample_model) unseen_data None = Inr (no_rows, None)"
    using unseen_transform by (simp add: sample_model_def)
  have r: "rows no_rows = []" by (simp add: no_rows_def)
  have c: "classes (classifier (sklearn_pipeline sample_model)) = Some sample_classes"
    by (simp add: sample_model_def)
  from predict_empty_survivors[OF t r c]
  have "predict sample_model unseen_data = Inr \<lparr>s_dtype = int64, s_name = None, entries = []\<rparr>"
    by (simp add: sample_classes_def)
  then show ?thesis using t r c by (simp add: unseen_data_def)
qed




text \<open>
  C5. The specification has a failing step leave the orchestrator unfitted, so that a
  later \<open>transform\<close> raises the not-fitted error. The code does otherwise: \<open>fit\<close> sets the
  list of fitted steps before its loop and appends to it step by step, so after every
  call of \<open>fit\<close>, failed or not, the attribute is there. Here the second of two steps
  fails on a frame without \<open>int_col\<close>; the orchestrator keeps the first step, and
  \<open>transform\<close> and \<open>get_metadata\<close> then answer from that one step.
\<close>

theorem fit_failure_keeps_fitted_steps:
  "fitted_steps (snd (FeaturesPreprocessor_fit import_module self X)) \<noteq> None
   \<and> FeaturesPreprocessor_fit repo_modules (FeaturesPreprocessor_init [mean_imputer_step, column_subtractor_step]) short_df
     = (Some (ValueError_missing_columns ''ColumnSubtractor'' {''int_col''}), half_fitted)
   \<and> fitted_steps half_fitted = Some [MeanImputer [''float_col''] [(''float_col'', FloatV 1)]]
   \<and> FeaturesPreprocessor_transform half_fitted short_df = Inr short_df_filled
   \<and> get_metadata sample_hash half_fitted = Inr [test_metadata ! 1]"
proof (intro conjI)
  show "fitted_steps (snd (FeaturesPreprocessor_fit import_module self X)) \<noteq> None"
    by (simp add: FeaturesPreprocessor_fit_def split: prod.splits)
  show "FeaturesPreprocessor_fit repo_modules
          (FeaturesPreprocessor_init [mean_imputer_step, column_subtractor_step]) short_df
      = (Some (ValueError_missing_columns ''ColumnSubtractor'' {''int_col''}), half_fitted)"
    by (simp add: FeaturesPreprocessor_fit_def FeaturesPreprocessor_init_def create_mean_imputer
        create_column_subtractor subtractor_def short_df_def table_defs half_fitted_def)
  show "fitted_steps half_fitted = Some [MeanImputer [''float_col''] [(''float_col'', FloatV 1)]]"
    by (simp add: half_fitted_def)
  show "FeaturesPreprocessor_transform half_fitted short_df = Inr short_df_filled"
    by (simp add: FeaturesPreprocessor_transform_def half_fitted_def short_df_def fillna_def
        short_df_filled_def)
  show "get_metadata sample_hash half_fitted = Inr [test_metadata ! 1]"
    by (simp add: get_metadata_def half_fitted_def sample_hash_def test_metadata_def
        mean_imputer_step_def)
qed

text \<open>
  C6, as the code has it. On an orchestrator that \<open>fit\<close> was never called on,
  \<open>get_metadata\<close> raises. After a \<open>fit\<close> that returned, it gives one entry per step
  configuration, in their order and with their name, class path and parameters, when
  there is at least one step; for an empty list of steps it raises as before, because it
  takes an empty list of fitted steps for no fit.
\<close>

theorem get_metadata_after_fit:
  assumes "FeaturesPreprocessor_fit import_module (FeaturesPreprocessor_init cfgs) X = (None, self')"
  shows "get_metadata class_hash (FeaturesPreprocessor_init cfgs) = Inl has_not_been_fitted
     \<and> (if cfgs = [] then get_metadata class_hash self' = Inl has_not_been_fitted
         else (\<exists>ms. get_metadata class_hash self' = Inr ms \<and> length ms = length cfgs
                \<and> map (\<lambda>m. \<lparr>name = name m, class_path = class_path m, params = params m\<rparr>) ms = cfgs))"
proof -
  from fit_length[OF assms] obtain fitted where s: "steps self' = cfgs"
    and f: "fitted_steps self' = Some fitted" and l: "length fitted = length cfgs"
    by (auto simp: FeaturesPreprocessor_init_def)
  have 1: "get_metadata class_hash (FeaturesPreprocessor_init cfgs) = Inl has_not_been_fitted"
    by (simp add: get_metadata_def FeaturesPreprocessor_init_def)
  show ?thesis
  proof (cases "cfgs = []")
    case True
    with l f 1 show ?thesis by (simp add: get_metadata_def)
  next
    case False
    with l have ne: "fitted \<noteq> []" by auto
    let ?ms = "map (\<lambda>(cfg, step_instance).
                        \<lparr>name = name cfg, class_path = class_path cfg, params = params cfg,
                         source_hash = class_hash (class_name step_instance)\<rparr>) (zip cfgs fitted)"
    have g: "get_metadata class_hash self' = Inr ?ms" using f ne s by (simp add: get_metadata_def)
    have "length ?ms = length cfgs" using l by simp
    moreover have "map (\<lambda>m. \<lparr>name = name m, class_path = class_path m, params = params m\<rparr>) ?ms = cfgs"
      using metadata_configs[OF l[symmetric], of "\<lambda>t. class_hash (class_name t)"] by simp
    ultimately show ?thesis using False 1 g by simp
  qed
qed

theorem get_metadata_after_fit_witness:
  "FeaturesPreprocessor_fit repo_modules (FeaturesPreprocessor_init test_steps) test_df = (None, test_fitted)
   \<and> get_metadata sample_hash (FeaturesPreprocessor_init test_steps) = Inl has_not_been_fitted
   \<and> get_metadata sample_hash test_fitted = Inr test_metadata
   \<and> length test_metadata = length test_steps
   \<and> map (\<lambda>m. \<lparr>name = name m, class_path = class_path m, params = params m\<rparr>) test_metadata = test_steps"
  using get_metadata_after_fit[OF test_fit, of sample_hash] test_fit test_get_metadata
  by (simp add: test_steps_def)

theorem get_metadata_no_steps_counterexample:
  "FeaturesPreprocessor_fit repo_modules (FeaturesPreprocessor_init []) test_df
     = (None, \<lparr>steps = [], fitted_steps = Some []\<rparr>)
   \<and> get_metadata sample_hash \<lparr>steps = [], fitted_steps = Some []\<rparr> = Inl has_not_been_fitted"
  by (simp add: FeaturesPreprocessor_fit_def FeaturesPreprocessor_init_def get_metadata_def)

text \<open>
  C7, as the code has it. \<open>transform\<close> of a step that writes columns validates its
  required columns first. On a table that has those and already has an output column of
  the step it raises the overwrite error, which names the class and the output columns.
  The model is pure: the argument of \<open>transform\<close> is a value, and every step copies its
  input before it writes.
\<close>

theorem transform_collision_guard:
  assumes "set (validated_by_transform t) \<subseteq> set (columns X)"
    and "set (output_columns t) \<inter> set (columns X) \<noteq> {}"
  shows "transformer_transform t X = Inl (ValueError_would_overwrite (class_name t) (output_columns t))"
proof (cases t)
  case (GroupedAggregator ic g aggs oc df)
  with assms(2) have "list_ex (\<lambda>col. col \<in> set (columns X)) oc"
    by (auto simp: list_ex_iff)
  with GroupedAggregator assms(1) show ?thesis
    by (simp add: validate_columns_ok)
next
  case (ColumnSubtractor ic oc a b)
  with assms show ?thesis by (simp add: validate_columns_ok)
next
  case (AbsoluteDifference ic oc a b)
  with assms show ?thesis by (simp add: validate_columns_ok)
next
  case (ThresholdBinarizer i oc th)
  with assms show ?thesis by (simp add: validate_columns_ok)
qed (use assms in simp_all)

theorem transform_collision_guard_witness:
  "transformer_transform subtractor test_result = Inl (ValueError_would_overwrite ''ColumnSubtractor'' [''diff_col''])
   \<and> transformer_transform binarizer test_result = Inl (ValueError_would_overwrite ''ThresholdBinarizer'' [''bin_col''])
   \<and> transformer_transform aggregator test_result
       = Inl (ValueError_would_overwrite ''GroupedAggregator'' [''diff_col'', ''bin_col''])
   \<and> transformer_transform (AbsoluteDifference [''float_col'', ''int_col''] ''diff_col'' ''float_col'' ''int_col'') test_result
       = Inl (ValueError_would_overwrite ''AbsoluteDifference'' [''diff_col''])"
  using transform_collision_guard[of subtractor test_result]
    transform_collision_guard[of binarizer test_result]
    transform_collision_guard[of aggregator test_result]
    transform_collision_guard[of "AbsoluteDifference [''float_col'', ''int_col''] ''diff_col'' ''float_col'' ''int_col''" test_result]
  by (simp add: subtractor_def binarizer_def aggregator_def test_result_def)

theorem transform_collision_guard_counterexample:
  "''diff_col'' \<in> set (columns clash_df)
   \<and> transformer_transform subtractor clash_df = Inl (ValueError_missing_columns ''ColumnSubtractor'' {''int_col''})"
  by (simp add: subtractor_def clash_df_def validate_columns_def)

text \<open>
  C8, as the code has it. \<open>fit\<close> of every class, and \<open>transform\<close> of the four classes
  that write columns, raise the error of \<open>_validate_columns\<close>, with the class name and the
  set of missing columns, when a column they validate is absent. \<open>transform\<close> of
  \<open>MeanImputer\<close> validates nothing and always returns the filled frame;
  \<open>transform\<close> of \<open>IntToFloatConverter\<close> skips a column that the frame does not have: it
  never raises that error, and returns the frame as it is when it has none of its columns.
\<close>

theorem missing_columns_errors:
  "(\<not> set (validated_by_fit t) \<subseteq> set (columns X) \<longrightarrow>
      transformer_fit t X
        = Inl (ValueError_missing_columns (class_name t) (set (validated_by_fit t) - set (columns X))))
   \<and> (\<not> set (validated_by_transform t) \<subseteq> set (columns X) \<longrightarrow>
      transformer_transform t X
        = Inl (ValueError_missing_columns (class_name t) (set (validated_by_transform t) - set (columns X))))
   \<and> transformer_transform (MeanImputer ic iv) X = Inr (fillna iv X)
   \<and> transformer_transform (IntToFloatConverter cs conv) X \<noteq> Inl (ValueError_missing_columns cls missing)
   \<and> (set conv \<inter> set (columns X) = {} \<longrightarrow> transformer_transform (IntToFloatConverter cs conv) X = Inr X)"
proof (intro conjI impI)
  assume a: "\<not> set (validated_by_fit t) \<subseteq> set (columns X)"
  show "transformer_fit t X
      = Inl (ValueError_missing_columns (class_name t) (set (validated_by_fit t) - set (columns X)))"
  proof (cases t)
    case (IntToFloatConverter cs conv)
    with a show ?thesis
      by (cases cs) (auto simp: validate_columns_missing)
  qed (use a in \<open>simp_all add: validate_columns_missing\<close>)
next
  assume a: "\<not> set (validated_by_transform t) \<subseteq> set (columns X)"
  show "transformer_transform t X
      = Inl (ValueError_missing_columns (class_name t) (set (validated_by_transform t) - set (columns X)))"
    by (cases t) (use a in \<open>simp_all add: validate_columns_missing\<close>)
next
  show "transformer_transform (MeanImputer ic iv) X = Inr (fillna iv X)" by simp
next
  show "transformer_transform (IntToFloatConverter cs conv) X \<noteq> Inl (ValueError_missing_columns cls missing)"
    by (auto dest: convert_columns_errors)
next
  assume "set conv \<inter> set (columns X) = {}"
  then have "convert_columns conv X = Inr X"
    by (induction conv) auto
  then show "transformer_transform (IntToFloatConverter cs conv) X = Inr X" by simp
qed

theorem missing_columns_errors_witness:
  "transformer_fit subtractor short_df = Inl (ValueError_missing_columns ''ColumnSubtractor'' {''int_col''})
   \<and> transformer_transform subtractor short_df = Inl (ValueError_missing_columns ''ColumnSubtractor'' {''int_col''})
   \<and> transformer_transform (MeanImputer [''int_col''] [(''int_col'', FloatV 2)]) short_df = Inr short_df
   \<and> transformer_transform (IntToFloatConverter (Some [''int_col'']) [''int_col'']) short_df = Inr short_df"
  using missing_columns_errors[of subtractor short_df "[''int_col'']" "[(''int_col'', FloatV 2)]"
      "Some [''int_col'']" "[''int_col'']" "''IntToFloatConverter''" "{''int_col''}"]
  by (simp add: subtractor_def short_df_def fillna_def)

theorem missing_columns_errors_counterexample:
  "''int_col'' \<notin> set (columns short_df)
   \<and> transformer_transform (MeanImputer [''int_col''] [(''int_col'', FloatV 2)]) short_df = Inr short_df
   \<and> transformer_transform (IntToFloatConverter (Some [''int_col'']) [''int_col'']) short_df = Inr short_df"
  by (simp add: short_df_def fillna_def)

text \<open>
  C9, as the code has it. A class path that has a dot, does not start with the default
  prefix and whose first component is not \<open>src\<close> gets the default prefix; a path that
  starts with the prefix or whose first component is \<open>src\<close> is used as it is. A path
  without a dot is used as it is too, and then cannot be split into module and class:
  \<open>ImportError\<close>. Otherwise the path is its module, a dot and its class name; a module
  or a class that is not found gives \<open>ImportError\<close> with the configured path, and a class
  that is found is called with the parameters, its result or its exception being the
  result.
\<close>

theorem resolver_behaviour:
  "(CHR ''.'' \<in> set (class_path cfg) \<and> \<not> startswith (class_path cfg) DEFAULT_MODULE_PREFIX
       \<and> split_first (class_path cfg) \<noteq> ''src''
      \<longrightarrow> expanded_class_path (class_path cfg) = DEFAULT_MODULE_PREFIX @ class_path cfg)
   \<and> (startswith (class_path cfg) DEFAULT_MODULE_PREFIX \<or> split_first (class_path cfg) = ''src''
      \<longrightarrow> expanded_class_path (class_path cfg) = class_path cfg)
   \<and> (CHR ''.'' \<notin> set (class_path cfg)
      \<longrightarrow> expanded_class_path (class_path cfg) = class_path cfg
          \<and> create_transformer_from_config import_module cfg = Inl (ImportError (class_path cfg)))
   \<and> (rsplit1 (expanded_class_path (class_path cfg)) = Some (module_path, cls_name)
      \<longrightarrow> expanded_class_path (class_path cfg) = module_path @ ''.'' @ cls_name
          \<and> create_transformer_from_config import_module cfg =
              (case import_module module_path of
                 None \<Rightarrow> Inl (ImportError (class_path cfg))
               | Some found_module \<Rightarrow>
                   (case found_module cls_name of
                      None \<Rightarrow> Inl (ImportError (class_path cfg))
                    | Some transformer_class \<Rightarrow> transformer_class (params cfg))))"
proof (intro conjI impI)
  assume "CHR ''.'' \<in> set (class_path cfg) \<and> \<not> startswith (class_path cfg) DEFAULT_MODULE_PREFIX
       \<and> split_first (class_path cfg) \<noteq> ''src''"
  then show "expanded_class_path (class_path cfg) = DEFAULT_MODULE_PREFIX @ class_path cfg"
    by (simp add: expanded_class_path_def)
next
  assume "startswith (class_path cfg) DEFAULT_MODULE_PREFIX \<or> split_first (class_path cfg) = ''src''"
  then show "expanded_class_path (class_path cfg) = class_path cfg"
    by (auto simp: expanded_class_path_def)
next
  assume nodot: "CHR ''.'' \<notin> set (class_path cfg)"
  then show e: "expanded_class_path (class_path cfg) = class_path cfg"
    by (simp add: expanded_class_path_def)
  from nodot have "rsplit1 (class_path cfg) = None" by (simp add: rsplit1_def)
  with e show "create_transformer_from_config import_module cfg = Inl (ImportError (class_path cfg))"
    by (simp add: create_transformer_from_config_def)
next
  assume r: "rsplit1 (expanded_class_path (class_path cfg)) = Some (module_path, cls_name)"
  from rsplit1_parts[OF r]
  show "expanded_class_path (class_path cfg) = module_path @ ''.'' @ cls_name" by simp
  from r show "create_transformer_from_config import_module cfg =
              (case import_module module_path of
                 None \<Rightarrow> Inl (ImportError (class_path cfg))
               | Some found_module \<Rightarrow>
                   (case found_module cls_name of
                      None \<Rightarrow> Inl (ImportError (class_path cfg))
                    | Some transformer_class \<Rightarrow> transformer_class (params cfg)))"
    by (simp add: create_transformer_from_config_def)
qed

theorem resolver_behaviour_witness:
  "expanded_class_path ''feature_store.MeanImputer'' = ''src.data.preprocessor.feature_store.MeanImputer''
   \<and> create_transformer_from_config repo_modules mean_imputer_step = Inr (MeanImputer [''float_col''] [])
   \<and> expanded_class_path ''src.data.preprocessor.feature_store.MeanImputer''
       = ''src.data.preprocessor.feature_store.MeanImputer''
   \<and> create_transformer_from_config repo_modules qualified_step = Inr (MeanImputer [''float_col''] [])
   \<and> create_transformer_from_config repo_modules bare_step = Inl (ImportError ''MeanImputer'')
   \<and> create_transformer_from_config repo_modules unknown_class_step = Inl (ImportError ''feature_store.Scaler'')
   \<and> create_transformer_from_config repo_modules unknown_module_step = Inl (ImportError ''scalers.Scaler'')"
  using resolver_behaviour[of mean_imputer_step repo_modules
          "''src.data.preprocessor.feature_store''" "''MeanImputer''"]
    resolver_behaviour[of qualified_step repo_modules
          "''src.data.preprocessor.feature_store''" "''MeanImputer''"]
    resolver_behaviour[of bare_step repo_modules "''''" "''''"]
    resolver_behaviour[of unknown_class_step repo_modules
          "''src.data.preprocessor.feature_store''" "''Scaler''"]
    resolver_behaviour[of unknown_module_step repo_modules
          "''src.data.preprocessor.scalers''" "''Scaler''"]
  by (simp add: mean_imputer_step_def qualified_step_def bare_step_def unknown_class_step_def
      unknown_module_step_def resolver_defs new_MeanImputer_def)

theorem resolver_behaviour_counterexample:
  "expanded_class_path (class_path bare_step) = ''MeanImputer''
   \<and> create_transformer_from_config repo_modules bare_step = Inl (ImportError ''MeanImputer'')
   \<and> create_transformer_from_config repo_modules no_params_step
       = Inl (TypeError ''MeanImputer.__init__() missing required positional arguments'')"
  by (simp add: bare_step_def no_params_step_def resolver_defs new_MeanImputer_def)



end
